theory Spec2Isabelle
  imports Main "HOL-Library.AList"
begin

section \<open>JavaScript values and containers used by the service\<close>

text \<open>
  Strings are lists of characters. \<open>startsWith\<close> is \<^verbatim>\<open>String.prototype.startsWith\<close>,
  \<open>splitOn\<close> is \<^verbatim>\<open>String.prototype.split\<close> with a one-character separator, and
  \<open>at_index\<close> is array indexing, where a read past the end gives \<^verbatim>\<open>undefined\<close>
  (\<open>None\<close>) instead of failing.
\<close>

definition startsWith :: "string \<Rightarrow> string \<Rightarrow> bool" where
  "startsWith s p = (take (length p) s = p)"

fun splitOn :: "char \<Rightarrow> string \<Rightarrow> string list" where
  "splitOn c [] = [[]]"
| "splitOn c (x # xs) =
     (if x = c then [] # splitOn c xs
      else (case splitOn c xs of
              [] \<Rightarrow> [[x]]
            | w # ws \<Rightarrow> (x # w) # ws))"

definition at_index :: "'a list \<Rightarrow> nat \<Rightarrow> 'a option" where
  "at_index xs i = (if i < length xs then Some (xs ! i) else None)"

text \<open>
  An optional string in a condition: \<^verbatim>\<open>undefined\<close> and the empty string are falsy.
\<close>

definition truthy :: "string option \<Rightarrow> bool" where
  "truthy v = (case v of None \<Rightarrow> False | Some s \<Rightarrow> s \<noteq> [])"

text \<open>
  A JavaScript \<^verbatim>\<open>Map\<close> keeps its entries in insertion order with one entry per key:
  \<^verbatim>\<open>set\<close> on a present key replaces the value in place, on an absent key appends.
  It is an association list under \<open>AList.update\<close> and \<open>AList.delete\<close>.
  A \<^verbatim>\<open>Set\<close> of strings is a list without repetition under \<open>set_add\<close> and \<open>set_delete\<close>.
\<close>

definition map_get :: "('k \<times> 'v) list \<Rightarrow> 'k \<Rightarrow> 'v option" where
  "map_get m k = map_of m k"

definition map_has :: "('k \<times> 'v) list \<Rightarrow> 'k \<Rightarrow> bool" where
  "map_has m k = (map_of m k \<noteq> None)"

definition map_set :: "'k \<Rightarrow> 'v \<Rightarrow> ('k \<times> 'v) list \<Rightarrow> ('k \<times> 'v) list" where
  "map_set k v m = AList.update k v m"

definition map_delete :: "'k \<Rightarrow> ('k \<times> 'v) list \<Rightarrow> ('k \<times> 'v) list" where
  "map_delete k m = AList.delete k m"

definition map_size :: "('k \<times> 'v) list \<Rightarrow> nat" where
  "map_size m = length m"

definition map_values :: "('k \<times> 'v) list \<Rightarrow> 'v list" where
  "map_values m = map snd m"

definition set_add :: "'a \<Rightarrow> 'a list \<Rightarrow> 'a list" where
  "set_add x xs = (if x \<in> set xs then xs else xs @ [x])"

definition set_delete :: "'a \<Rightarrow> 'a list \<Rightarrow> 'a list" where
  "set_delete x xs = removeAll x xs"

definition set_size :: "'a list \<Rightarrow> nat" where
  "set_size xs = length xs"

section \<open>Data of the socket service\<close>

text \<open>The user a verified token stands for (the fields the service reads).\<close>

record User =
  user_id :: string
  user_name :: string
  user_role :: string

text \<open>What a collaborator's call can end in instead of a value.\<close>

datatype failure = VerifierError | StoreError | MetricsError

text \<open>
  The fields the service keeps on the transport's socket object: \<^verbatim>\<open>socket.userId\<close>,
  \<^verbatim>\<open>socket.userRole\<close>, \<^verbatim>\<open>socket.isAuthenticated\<close> (\<^verbatim>\<open>undefined\<close> until set;
  an unset flag reads as false).
\<close>

record Socket =
  sock_userId :: "string option"
  sock_userRole :: "string option"
  sock_isAuthenticated :: bool

text \<open>The handshake of a connecting socket.\<close>

record Handshake =
  hs_authToken :: "string option"
  hs_authorization :: "string option"
  hs_userAgent :: "string option"
  hs_address :: string

text \<open>The interface \<^verbatim>\<open>SocketUser\<close>; times are milliseconds.\<close>

record SocketUser =
  id_su :: string
  socketId :: string
  userId :: "string option"
  role :: "string option"
  isAuthenticated :: bool
  connectedAt :: int
  lastActivity :: int
  userAgent :: string
  ipAddress :: string
  location :: "(string \<times> string) option"

datatype EventData =
    ConnectionData string string bool
  | DisconnectionData int bool
  | ActivityData string

record AnalyticsEvent =
  ev_type :: string
  ev_sessionId :: string
  ev_userId :: "string option"
  ev_data :: EventData
  ev_timestamp :: int

record DashboardData =
  activeConnections :: nat
  authenticatedUsers :: nat
  adminConnections :: nat
  timestamp :: int

record Metrics =
  todayPageViews :: nat
  todayUniqueVisitors :: nat
  todayProjectViews :: nat
  activeUsers :: nat

text \<open>An emission: whom it is addressed to, and the event with its payload.\<close>

datatype Target = ToSocket string | ToRoom string | ToAll

datatype Message =
    ConnectionEstablished string int nat
  | AuthenticationSuccess string string string
  | AuthenticationError string
  | RoomJoined string
  | RoomJoinError string
  | RoomLeft string
  | DashboardUpdate DashboardData
  | RealTimeAnalytics Metrics
  | ActiveUsersCount nat

datatype LogEntry = LogInfo string | LogError string

text \<open>
  The state the handlers read and write. \<open>connectedUsers\<close> and \<open>userSessions\<close> are the
  two maps of the class. \<open>sockets\<close> (the socket objects by \<^verbatim>\<open>socket.id\<close>) and \<open>rooms\<close>
  (the members of each room) belong to the transport, \<open>redis\<close> to the key-value store,
  \<open>tracked\<close> to the analytics sink; \<open>outbox\<close> lists what was emitted, in order, and
  \<open>logs\<close> what was logged.
\<close>

record ServiceState =
  sockets :: "string \<Rightarrow> Socket"
  rooms :: "string \<Rightarrow> string set"
  connectedUsers :: "(string \<times> SocketUser) list"
  userSessions :: "(string \<times> string list) list"
  redis :: "string \<Rightarrow> SocketUser option"
  tracked :: "AnalyticsEvent list"
  outbox :: "(Target \<times> Message) list"
  logs :: "LogEntry list"

text \<open>
  What the collaborators answer during one run of a handler: the clock, the token
  verifier (a user, no user, or an exception), whether the service's own store commands
  (\<^verbatim>\<open>setex\<close>, \<^verbatim>\<open>del\<close>) complete, whether the body of the analytics sink's
  \<^verbatim>\<open>try\<close> block completes, and the real-time metrics fetch.
\<close>

record Env =
  now :: int
  verifyToken :: "string \<Rightarrow> failure + User option"
  redisAnswers :: bool
  sinkAnswers :: bool
  getRealTimeMetrics :: "failure + Metrics"

section \<open>Transport, logger and analytics sink\<close>

definition socket_join :: "string \<Rightarrow> string \<Rightarrow> ServiceState \<Rightarrow> ServiceState" where
  "socket_join sid room st = st\<lparr>rooms := (rooms st)(room := insert sid (rooms st room))\<rparr>"

definition socket_leave :: "string \<Rightarrow> string \<Rightarrow> ServiceState \<Rightarrow> ServiceState" where
  "socket_leave sid room st = st\<lparr>rooms := (rooms st)(room := rooms st room - {sid})\<rparr>"

text \<open>
  The transport takes a closing socket out of every room by itself, before it emits
  \<^verbatim>\<open>disconnect\<close>; the service has no code for it.
\<close>

definition socket_leaveAll :: "string \<Rightarrow> ServiceState \<Rightarrow> ServiceState" where
  "socket_leaveAll sid st = st\<lparr>rooms := (\<lambda>room. rooms st room - {sid})\<rparr>"

definition socket_emit :: "string \<Rightarrow> Message \<Rightarrow> ServiceState \<Rightarrow> ServiceState" where
  "socket_emit sid msg st = st\<lparr>outbox := outbox st @ [(ToSocket sid, msg)]\<rparr>"

definition io_to_emit :: "string \<Rightarrow> Message \<Rightarrow> ServiceState \<Rightarrow> ServiceState" where
  "io_to_emit room msg st = st\<lparr>outbox := outbox st @ [(ToRoom room, msg)]\<rparr>"

definition io_emit :: "Message \<Rightarrow> ServiceState \<Rightarrow> ServiceState" where
  "io_emit msg st = st\<lparr>outbox := outbox st @ [(ToAll, msg)]\<rparr>"

definition logger_info :: "string \<Rightarrow> ServiceState \<Rightarrow> ServiceState" where
  "logger_info msg st = st\<lparr>logs := logs st @ [LogInfo msg]\<rparr>"

definition logger_error :: "string \<Rightarrow> ServiceState \<Rightarrow> ServiceState" where
  "logger_error msg st = st\<lparr>logs := logs st @ [LogError msg]\<rparr>"

text \<open>
  \<^verbatim>\<open>AnalyticsService.trackEvent\<close>: the whole body is inside \<^verbatim>\<open>try\<close>, and the
  \<^verbatim>\<open>catch\<close> only logs, so the call returns to its caller either way.
\<close>

definition trackEvent :: "Env \<Rightarrow> AnalyticsEvent \<Rightarrow> ServiceState \<Rightarrow> ServiceState" where
  "trackEvent env event st =
     (if sinkAnswers env then st\<lparr>tracked := tracked st @ [event]\<rparr>
      else logger_error ''Failed to track analytics event:'' st)"

section \<open>The handlers of SocketService\<close>

definition authenticationMiddleware ::
  "Env \<Rightarrow> Handshake \<Rightarrow> string \<Rightarrow> ServiceState \<Rightarrow> ServiceState" where
  "authenticationMiddleware env hs sid st =
     (let token = (if truthy (hs_authToken hs) then hs_authToken hs else hs_authorization hs)
      in case token of
           None \<Rightarrow> st
         | Some t \<Rightarrow>
             if t = [] then st
             else (case verifyToken env t of
                     Inl e \<Rightarrow> logger_error ''Socket authentication error:'' st
                   | Inr None \<Rightarrow> st
                   | Inr (Some user) \<Rightarrow>
                       st\<lparr>sockets := (sockets st)(sid :=
                            \<lparr>sock_userId = Some (user_id user),
                             sock_userRole = Some (user_role user),
                             sock_isAuthenticated = True\<rparr>)\<rparr>))"

definition getPublicUserCount :: "ServiceState \<Rightarrow> nat" where
  "getPublicUserCount st = map_size (connectedUsers st)"

definition getLocationFromIP :: "string \<Rightarrow> (string \<times> string) option" where
  "getLocationFromIP address = Some (''Unknown'', ''Unknown'')"

text \<open>The object literal \<^verbatim>\<open>socketUser\<close> that \<^verbatim>\<open>handleConnection\<close> builds.\<close>

definition newSocketUser :: "Env \<Rightarrow> Handshake \<Rightarrow> string \<Rightarrow> Socket \<Rightarrow> SocketUser" where
  "newSocketUser env hs sid sock =
     \<lparr>id_su = sid,
      socketId = sid,
      userId = sock_userId sock,
      role = sock_userRole sock,
      isAuthenticated = sock_isAuthenticated sock,
      connectedAt = now env,
      lastActivity = now env,
      userAgent = (case hs_userAgent hs of None \<Rightarrow> [] | Some u \<Rightarrow> u),
      ipAddress = hs_address hs,
      location = getLocationFromIP (hs_address hs)\<rparr>"

text \<open>
  The block \<^verbatim>\<open>if (socketUser.userId) { ... }\<close> of \<^verbatim>\<open>handleConnection\<close>: the
  session index gets the socket, the socket joins its user's room and, for an admin,
  the room \<^verbatim>\<open>admins\<close>.
\<close>

definition trackUserSession :: "string \<Rightarrow> SocketUser \<Rightarrow> ServiceState \<Rightarrow> ServiceState" where
  "trackUserSession sid socketUser st =
     (case userId socketUser of
        None \<Rightarrow> st
      | Some uid \<Rightarrow>
          if uid = [] then st
          else
            (let sessions0 =
                   (if \<not> map_has (userSessions st) uid then map_set uid [] (userSessions st)
                    else userSessions st);
                 sessions1 =
                   (case map_get sessions0 uid of
                      None \<Rightarrow> sessions0
                    | Some userSockets \<Rightarrow> map_set uid (set_add sid userSockets) sessions0);
                 st1 = socket_join sid (''user:'' @ uid) (st\<lparr>userSessions := sessions1\<rparr>)
             in if role socketUser = Some ''admin'' then socket_join sid ''admins'' st1
                else st1))"

text \<open>
  \<^verbatim>\<open>handleConnection\<close> and \<^verbatim>\<open>handleDisconnection\<close> are asynchronous and nobody
  awaits them: at each \<^verbatim>\<open>await\<close> the handler is suspended and the handlers of other
  events run, on this socket or on others. A \<open>Meanwhile\<close> says what those do to the state
  during each suspension: while the location is resolved, while the service's own store
  command is out, while the analytics sink works. The store's own effect is placed
  after what ran meanwhile, the sink's before. \<open>quiet\<close> is the run in which nothing
  else happens.
\<close>

record Meanwhile =
  whileLocating :: "ServiceState \<Rightarrow> ServiceState"
  whileStoring :: "ServiceState \<Rightarrow> ServiceState"
  whileTracking :: "ServiceState \<Rightarrow> ServiceState"

definition quiet :: Meanwhile where
  "quiet = \<lparr>whileLocating = (\<lambda>st. st), whileStoring = (\<lambda>st. st), whileTracking = (\<lambda>st. st)\<rparr>"

text \<open>
  \<^verbatim>\<open>handleConnection\<close> in its pieces. The object literal reads the socket when the
  handler is called and ends in \<^verbatim>\<open>await getLocationFromIP\<close>; then the record is
  stored and the session tracked (\<open>handleConnection_store\<close>); then come
  \<^verbatim>\<open>await setex\<close> and \<^verbatim>\<open>await trackEvent\<close>; then the acknowledgment, which reads
  the size of \<open>connectedUsers\<close> at that moment, and the log line
  (\<open>handleConnection_ack\<close>).
\<close>

definition handleConnection_store :: "string \<Rightarrow> SocketUser \<Rightarrow> ServiceState \<Rightarrow> ServiceState" where
  "handleConnection_store sid socketUser st =
     trackUserSession sid socketUser
       (st\<lparr>connectedUsers := map_set sid socketUser (connectedUsers st)\<rparr>)"

definition handleConnection_ack :: "Env \<Rightarrow> string \<Rightarrow> ServiceState \<Rightarrow> ServiceState" where
  "handleConnection_ack env sid st =
     logger_info (''Socket connected: '' @ sid)
       (socket_emit sid (ConnectionEstablished sid (now env) (getPublicUserCount st)) st)"

definition handleConnectionWith ::
  "Env \<Rightarrow> Meanwhile \<Rightarrow> Handshake \<Rightarrow> string \<Rightarrow> ServiceState
     \<Rightarrow> failure option \<times> ServiceState" where
  "handleConnectionWith env mw hs sid st =
     (let socketUser = newSocketUser env hs sid (sockets st sid);
          st2 = handleConnection_store sid socketUser (whileLocating mw st)
      in if \<not> redisAnswers env then (Some StoreError, whileStoring mw st2)
         else
           (let st2' = whileStoring mw st2;
                st3 = st2'\<lparr>redis := (redis st2')((''socket:'' @ sid) := Some socketUser)\<rparr>;
                st4 = whileTracking mw
                        (trackEvent env
                           \<lparr>ev_type = ''socket_connection'',
                            ev_sessionId = sid,
                            ev_userId = userId socketUser,
                            ev_data = ConnectionData (userAgent socketUser)
                                        (ipAddress socketUser) (isAuthenticated socketUser),
                            ev_timestamp = now env\<rparr> st3)
            in (None, handleConnection_ack env sid st4)))"

text \<open>The handler when nothing else runs during its suspensions.\<close>

definition handleConnection ::
  "Env \<Rightarrow> Handshake \<Rightarrow> string \<Rightarrow> ServiceState \<Rightarrow> failure option \<times> ServiceState" where
  "handleConnection env hs sid st = handleConnectionWith env quiet hs sid st"

definition handleAuthentication ::
  "Env \<Rightarrow> string \<Rightarrow> string \<Rightarrow> ServiceState \<Rightarrow> ServiceState" where
  "handleAuthentication env sid token st =
     (case verifyToken env token of
        Inl e \<Rightarrow>
          socket_emit sid (AuthenticationError ''Authentication failed'')
            (logger_error ''Socket authentication error:'' st)
      | Inr None \<Rightarrow> socket_emit sid (AuthenticationError ''Invalid token'') st
      | Inr (Some user) \<Rightarrow>
          (let st1 = st\<lparr>sockets := (sockets st)(sid :=
                         \<lparr>sock_userId = Some (user_id user),
                          sock_userRole = Some (user_role user),
                          sock_isAuthenticated = True\<rparr>)\<rparr>;
               st2 = (case map_get (connectedUsers st1) sid of
                        None \<Rightarrow> st1
                      | Some socketUser \<Rightarrow>
                          st1\<lparr>connectedUsers :=
                                map_set sid
                                  (socketUser\<lparr>userId := Some (user_id user),
                                              role := Some (user_role user),
                                              isAuthenticated := True\<rparr>)
                                  (connectedUsers st1)\<rparr>);
               st3 = socket_join sid (''user:'' @ user_id user) st2;
               st4 = (if user_role user = ''admin'' then socket_join sid ''admins'' st3 else st3);
               st5 = socket_emit sid
                       (AuthenticationSuccess (user_id user) (user_name user) (user_role user)) st4
           in logger_info (''Socket authenticated: '' @ sid @ '' - User: '' @ user_id user) st5))"

definition canJoinRoom :: "Socket \<Rightarrow> string \<Rightarrow> bool" where
  "canJoinRoom sock room =
     (if startsWith room ''admin_'' then sock_userRole sock = Some ''admin''
      else if startsWith room ''user:'' then
        (let roomUserId = at_index (splitOn CHR '':'' room) 1
         in sock_userId sock = roomUserId \<or> sock_userRole sock = Some ''admin'')
      else if startsWith room ''public_'' then True
      else False)"

definition handleJoinRoom :: "string \<Rightarrow> string \<Rightarrow> ServiceState \<Rightarrow> ServiceState" where
  "handleJoinRoom sid room st =
     (if canJoinRoom (sockets st sid) room then
        logger_info (''Socket '' @ sid @ '' joined room: '' @ room)
          (socket_emit sid (RoomJoined room) (socket_join sid room st))
      else socket_emit sid (RoomJoinError ''Access denied to room'') st)"

definition handleLeaveRoom :: "string \<Rightarrow> string \<Rightarrow> ServiceState \<Rightarrow> ServiceState" where
  "handleLeaveRoom sid room st = socket_emit sid (RoomLeft room) (socket_leave sid room st)"

definition handleUserActivity ::
  "Env \<Rightarrow> string \<Rightarrow> string \<Rightarrow> ServiceState \<Rightarrow> ServiceState" where
  "handleUserActivity env sid data st =
     (let st1 = (case map_get (connectedUsers st) sid of
                   None \<Rightarrow> st
                 | Some socketUser \<Rightarrow>
                     st\<lparr>connectedUsers :=
                          map_set sid (socketUser\<lparr>lastActivity := now env\<rparr>) (connectedUsers st)\<rparr>)
      in trackEvent env
           \<lparr>ev_type = ''user_activity'',
            ev_sessionId = sid,
            ev_userId = sock_userId (sockets st1 sid),
            ev_data = ActivityData data,
            ev_timestamp = now env\<rparr> st1)"

text \<open>
  The block \<^verbatim>\<open>if (socketUser.userId) { ... }\<close> of \<^verbatim>\<open>handleDisconnection\<close>: the
  socket leaves the set of the user its record names, and an empty set is deleted.
\<close>

definition removeUserSession :: "string \<Rightarrow> SocketUser \<Rightarrow> ServiceState \<Rightarrow> ServiceState" where
  "removeUserSession sid socketUser st =
     (case userId socketUser of
        None \<Rightarrow> st
      | Some uid \<Rightarrow>
          if uid = [] then st
          else (case map_get (userSessions st) uid of
                  None \<Rightarrow> st
                | Some userSockets \<Rightarrow>
                    (let userSockets1 = set_delete sid userSockets
                     in if set_size userSockets1 = 0
                        then st\<lparr>userSessions := map_delete uid (userSessions st)\<rparr>
                        else st\<lparr>userSessions := map_set uid userSockets1 (userSessions st)\<rparr>)))"

text \<open>
  \<^verbatim>\<open>handleDisconnection\<close> looks the record up when it is called. With a record it
  unlists the socket, awaits \<^verbatim>\<open>trackEvent\<close> and only then deletes the record; with
  or without one it then awaits the store's \<^verbatim>\<open>del\<close>, outside any \<^verbatim>\<open>try\<close>, and
  logs.
\<close>

definition handleDisconnectionWith ::
  "Env \<Rightarrow> Meanwhile \<Rightarrow> string \<Rightarrow> ServiceState \<Rightarrow> failure option \<times> ServiceState" where
  "handleDisconnectionWith env mw sid st =
     (let st3 =
            (case map_get (connectedUsers st) sid of
               None \<Rightarrow> st
             | Some socketUser \<Rightarrow>
                 (let sessionDuration = now env - connectedAt socketUser;
                      st1 = removeUserSession sid socketUser st;
                      st2 = whileTracking mw
                              (trackEvent env
                                 \<lparr>ev_type = ''socket_disconnection'',
                                  ev_sessionId = sid,
                                  ev_userId = userId socketUser,
                                  ev_data = DisconnectionData sessionDuration
                                              (isAuthenticated socketUser),
                                  ev_timestamp = now env\<rparr> st1)
                  in st2\<lparr>connectedUsers := map_delete sid (connectedUsers st2)\<rparr>));
          st4 = whileStoring mw st3
      in if \<not> redisAnswers env then (Some StoreError, st4)
         else (None,
               logger_info (''Socket disconnected: '' @ sid)
                 (st4\<lparr>redis := (redis st4)((''socket:'' @ sid) := None)\<rparr>)))"

definition handleDisconnection ::
  "Env \<Rightarrow> string \<Rightarrow> ServiceState \<Rightarrow> failure option \<times> ServiceState" where
  "handleDisconnection env sid st = handleDisconnectionWith env quiet sid st"

definition getDashboardData :: "Env \<Rightarrow> ServiceState \<Rightarrow> DashboardData" where
  "getDashboardData env st =
     \<lparr>activeConnections = map_size (connectedUsers st),
      authenticatedUsers = length (filter isAuthenticated (map_values (connectedUsers st))),
      adminConnections =
        length (filter (\<lambda>user. role user = Some ''admin'') (map_values (connectedUsers st))),
      timestamp = now env\<rparr>"

definition broadcastRealTimeData :: "Env \<Rightarrow> ServiceState \<Rightarrow> ServiceState" where
  "broadcastRealTimeData env st =
     (let dashboardData = getDashboardData env st;
          st1 = io_to_emit ''admin_dashboard'' (DashboardUpdate dashboardData) st
      in case getRealTimeMetrics env of
           Inl e \<Rightarrow> logger_error ''Error broadcasting real-time data:'' st1
         | Inr analytics \<Rightarrow>
             (let st2 = io_to_emit ''admins'' (RealTimeAnalytics analytics) st1
              in io_emit (ActiveUsersCount (getPublicUserCount st2)) st2))"


definition getUserConnections :: "ServiceState \<Rightarrow> string \<Rightarrow> nat" where
  "getUserConnections st uid =
     (case map_get (userSessions st) uid of None \<Rightarrow> 0 | Some userSockets \<Rightarrow> set_size userSockets)"

section \<open>The service at construction, and sample collaborators\<close>

text \<open>
  The state of a new service: both maps empty, no socket has fields set, no room has a
  member.
\<close>

definition initial :: ServiceState where
  "initial =
     \<lparr>sockets = (\<lambda>_. \<lparr>sock_userId = None, sock_userRole = None, sock_isAuthenticated = False\<rparr>),
      rooms = (\<lambda>_. {}),
      connectedUsers = [],
      userSessions = [],
      redis = (\<lambda>_. None),
      tracked = [],
      outbox = [],
      logs = []\<rparr>"

text \<open>
  A sample verifier for the concrete runs below: three tokens that stand for users (two
  visitors and an admin), one on which the verifier throws, and every other token is
  refused.
\<close>

definition demo_verify :: "string \<Rightarrow> failure + User option" where
  "demo_verify t =
     (if t = ''t-u1'' then
        Inr (Some \<lparr>user_id = ''u1'', user_name = ''Uma'', user_role = ''visitor''\<rparr>)
      else if t = ''t-u2'' then
        Inr (Some \<lparr>user_id = ''u2'', user_name = ''Udo'', user_role = ''visitor''\<rparr>)
      else if t = ''t-admin'' then
        Inr (Some \<lparr>user_id = ''a1'', user_name = ''Ada'', user_role = ''admin''\<rparr>)
      else if t = ''t-throw'' then Inl VerifierError
      else Inr None)"

definition demo_env :: Env where
  "demo_env =
     \<lparr>now = 1000, verifyToken = demo_verify, redisAnswers = True, sinkAnswers = True,
      getRealTimeMetrics =
        Inr \<lparr>todayPageViews = 7, todayUniqueVisitors = 3, todayProjectViews = 2,
             activeUsers = 1\<rparr>\<rparr>"

definition plain_handshake :: Handshake where
  "plain_handshake =
     \<lparr>hs_authToken = None, hs_authorization = None, hs_userAgent = Some ''agent'',
      hs_address = ''10.0.0.1''\<rparr>"

text \<open>A socket connects: the middleware runs, then the connection handler.\<close>

definition connect ::
  "Env \<Rightarrow> Handshake \<Rightarrow> string \<Rightarrow> ServiceState \<Rightarrow> failure option \<times> ServiceState" where
  "connect env hs sid st = handleConnection env hs sid (authenticationMiddleware env hs sid st)"

text \<open>A socket closes: the transport clears its rooms, then the handler runs.\<close>

definition disconnect ::
  "Env \<Rightarrow> string \<Rightarrow> ServiceState \<Rightarrow> failure option \<times> ServiceState" where
  "disconnect env sid st = handleDisconnection env sid (socket_leaveAll sid st)"

text \<open>
  The events a connected socket can send, as \<^verbatim>\<open>initialize\<close> binds them to handlers,
  and a run of such events on one socket, each with what the collaborators answer
  during it.
\<close>

datatype Request = Authenticate string | JoinRoom string | LeaveRoom string | UserActivity string

definition onRequest :: "Env \<Rightarrow> string \<Rightarrow> Request \<Rightarrow> ServiceState \<Rightarrow> ServiceState" where
  "onRequest env sid req st =
     (case req of
        Authenticate token \<Rightarrow> handleAuthentication env sid token st
      | JoinRoom room \<Rightarrow> handleJoinRoom sid room st
      | LeaveRoom room \<Rightarrow> handleLeaveRoom sid room st
      | UserActivity data \<Rightarrow> handleUserActivity env sid data st)"

fun onRequests :: "string \<Rightarrow> (Env \<times> Request) list \<Rightarrow> ServiceState \<Rightarrow> ServiceState" where
  "onRequests sid [] st = st"
| "onRequests sid ((env, req) # rest) st = onRequests sid rest (onRequest env sid req st)"

text \<open>\<open>unlisted\<close>: no set of the session index holds the socket id.\<close>

definition unlisted :: "ServiceState \<Rightarrow> string \<Rightarrow> bool" where
  "unlisted st sid =
     (\<forall>uid sids. map_get (userSessions st) uid = Some sids \<longrightarrow> sid \<notin> set sids)"

text \<open>
  Two observations on a state. \<open>authenticatedAs\<close>: some record of \<open>connectedUsers\<close> is
  flagged authenticated and carries the user id. \<open>besides_trace\<close>: the state without what
  the analytics sink and the logger recorded.
\<close>

definition authenticatedAs :: "ServiceState \<Rightarrow> string \<Rightarrow> bool" where
  "authenticatedAs st uid =
     list_ex (\<lambda>user. isAuthenticated user \<and> userId user = Some uid)
       (map_values (connectedUsers st))"

definition besides_trace :: "ServiceState \<Rightarrow> ServiceState" where
  "besides_trace st = st\<lparr>tracked := [], logs := []\<rparr>"

text \<open>
  Two sample sessions: socket \<open>s1\<close> connects with no token in its handshake and then
  sends \<^verbatim>\<open>authenticate\<close> with the token of the admin, or of the visitor \<open>u1\<close>.
\<close>

definition admin_session :: ServiceState where
  "admin_session =
     handleAuthentication demo_env ''s1'' ''t-admin''
       (snd (connect demo_env plain_handshake ''s1'' initial))"

definition visitor_session :: ServiceState where
  "visitor_session =
     handleAuthentication demo_env ''s1'' ''t-u1''
       (snd (connect demo_env plain_handshake ''s1'' initial))"

text \<open>
  Two more: \<open>s1\<close> connects with no token and stays anonymous; and \<open>s1\<close> connects
  with the token of \<open>u1\<close> in its handshake, sends \<^verbatim>\<open>authenticate\<close> with the token of
  \<open>u2\<close>, and closes.
\<close>

definition anonymous_session :: ServiceState where
  "anonymous_session = snd (connect demo_env plain_handshake ''s1'' initial)"

definition switched_identity_run :: ServiceState where
  "switched_identity_run =
     (let st1 = snd (connect demo_env (plain_handshake\<lparr>hs_authToken := Some ''t-u1''\<rparr>)
                       ''s1'' initial);
          st2 = handleAuthentication demo_env ''s1'' ''t-u2'' st1
      in snd (disconnect demo_env ''s1'' st2))"

section \<open>Basic facts\<close>

text \<open>The two handlers in a quiet run, written out.\<close>

lemma handleConnection_quiet:
  "handleConnection env hs sid st =
     (let socketUser = newSocketUser env hs sid (sockets st sid);
          st1 = st\<lparr>connectedUsers := map_set sid socketUser (connectedUsers st)\<rparr>;
          st2 = trackUserSession sid socketUser st1
      in if \<not> redisAnswers env then (Some StoreError, st2)
         else
           (let st3 = st2\<lparr>redis := (redis st2)((''socket:'' @ sid) := Some socketUser)\<rparr>;
                st4 = trackEvent env
                        \<lparr>ev_type = ''socket_connection'',
                         ev_sessionId = sid,
                         ev_userId = userId socketUser,
                         ev_data = ConnectionData (userAgent socketUser) (ipAddress socketUser)
                                     (isAuthenticated socketUser),
                         ev_timestamp = now env\<rparr> st3;
                st5 = socket_emit sid
                        (ConnectionEstablished sid (now env) (getPublicUserCount st4)) st4
            in (None, logger_info (''Socket connected: '' @ sid) st5)))"
  by (simp add: handleConnection_def handleConnectionWith_def handleConnection_store_def
      handleConnection_ack_def quiet_def Let_def)

lemma handleDisconnection_quiet:
  "handleDisconnection env sid st =
     (let st3 =
            (case map_get (connectedUsers st) sid of
               None \<Rightarrow> st
             | Some socketUser \<Rightarrow>
                 (let sessionDuration = now env - connectedAt socketUser;
                      st1 = removeUserSession sid socketUser st;
                      st2 = trackEvent env
                              \<lparr>ev_type = ''socket_disconnection'',
                               ev_sessionId = sid,
                               ev_userId = userId socketUser,
                               ev_data = DisconnectionData sessionDuration
                                           (isAuthenticated socketUser),
                               ev_timestamp = now env\<rparr> st1
                  in st2\<lparr>connectedUsers := map_delete sid (connectedUsers st2)\<rparr>))
      in if \<not> redisAnswers env then (Some StoreError, st3)
         else (None,
               logger_info (''Socket disconnected: '' @ sid)
                 (st3\<lparr>redis := (redis st3)((''socket:'' @ sid) := None)\<rparr>)))"
  by (simp add: handleDisconnection_def handleDisconnectionWith_def quiet_def Let_def
      split: option.splits)

lemma map_get_map_set: "map_get (map_set k v m) k' = (if k' = k then Some v else map_get m k')"
  by (simp add: map_get_def map_set_def update_conv')

lemma map_get_map_delete: "map_get (map_delete k m) k' = (if k' = k then None else map_get m k')"
  by (simp add: map_get_def map_delete_def delete_conv')

lemmas transport_defs = socket_join_def socket_leave_def socket_leaveAll_def socket_emit_def
  io_to_emit_def
  io_emit_def logger_info_def logger_error_def trackEvent_def

lemmas container_defs = map_get_def map_has_def map_set_def map_delete_def map_size_def
  map_values_def set_add_def set_delete_def set_size_def startsWith_def at_index_def truthy_def

lemmas handler_defs = authenticationMiddleware_def getPublicUserCount_def
  getLocationFromIP_def newSocketUser_def trackUserSession_def handleConnection_quiet
  handleAuthentication_def canJoinRoom_def handleJoinRoom_def handleLeaveRoom_def
  handleUserActivity_def removeUserSession_def handleDisconnection_quiet getDashboardData_def
  broadcastRealTimeData_def getUserConnections_def

lemmas demo_defs = initial_def demo_verify_def demo_env_def plain_handshake_def connect_def
  disconnect_def

lemma map_size_map_set:
  "map_size (map_set k v m) = (if map_get m k = None then Suc (map_size m) else map_size m)"
  by (induction m) (auto simp: map_size_def map_set_def map_get_def)

lemma map_size_map_set_pos: "1 \<le> map_size (map_set k v m)"
  using update_nonempty [of k v m]
  by (cases "AList.update k v m") (simp_all add: map_size_def map_set_def)

lemma admin_session_role: "sock_userRole (sockets admin_session ''s1'') = Some ''admin''"
  by (simp add: admin_session_def demo_defs handler_defs transport_defs container_defs Let_def)

lemma visitor_session_role: "sock_userRole (sockets visitor_session ''s1'') = Some ''visitor''"
  by (simp add: visitor_session_def demo_defs handler_defs transport_defs container_defs Let_def)

section \<open>Room authorization\<close>

lemma canJoin_admin_dashboard:
  "canJoinRoom sock ''admin_dashboard'' = (sock_userRole sock = Some ''admin'')"
  by (simp add: canJoinRoom_def startsWith_def)

lemma canJoin_admins: "\<not> canJoinRoom sock ''admins''"
  by (simp add: canJoinRoom_def startsWith_def)

text \<open>
  Claim C5. A \<^verbatim>\<open>join_room\<close> for the room \<^verbatim>\<open>admin_dashboard\<close> is answered with
  \<^verbatim>\<open>room_joined\<close> exactly when the role on the socket is \<^verbatim>\<open>admin\<close> at the call;
  then the socket is a member of the room afterwards. When it is denied, the state is
  the one before the call with only the \<^verbatim>\<open>room_join_error\<close> emission added: no
  room, no map and no socket field changes.
\<close>

theorem joinRoom_admin_dashboard:
  "(outbox (handleJoinRoom sid ''admin_dashboard'' st) =
      outbox st @ [(ToSocket sid, RoomJoined ''admin_dashboard'')])
     = (sock_userRole (sockets st sid) = Some ''admin'')
   \<and> (sock_userRole (sockets st sid) = Some ''admin'' \<longrightarrow>
        sid \<in> rooms (handleJoinRoom sid ''admin_dashboard'' st) ''admin_dashboard'')
   \<and> (sock_userRole (sockets st sid) \<noteq> Some ''admin'' \<longrightarrow>
        handleJoinRoom sid ''admin_dashboard'' st =
          st\<lparr>outbox := outbox st @ [(ToSocket sid, RoomJoinError ''Access denied to room'')]\<rparr>)"
  by (simp add: handleJoinRoom_def canJoin_admin_dashboard transport_defs)

theorem joinRoom_admin_dashboard_witness:
  "''s1'' \<in> rooms (handleJoinRoom ''s1'' ''admin_dashboard'' admin_session) ''admin_dashboard''
   \<and> rooms (handleJoinRoom ''s1'' ''admin_dashboard'' visitor_session) = rooms visitor_session
   \<and> ''s1'' \<notin> rooms (handleJoinRoom ''s1'' ''admin_dashboard'' visitor_session) ''admin_dashboard''"
  using joinRoom_admin_dashboard [of "''s1''" admin_session]
    joinRoom_admin_dashboard [of "''s1''" visitor_session]
    admin_session_role visitor_session_role
  apply simp
  apply (simp add: visitor_session_def demo_defs handler_defs transport_defs container_defs Let_def)
  done

text \<open>
  The room named exactly \<^verbatim>\<open>admins\<close> has none of the prefixes \<^verbatim>\<open>admin_\<close>,
  \<^verbatim>\<open>user:\<close>, \<^verbatim>\<open>public_\<close>, so \<^verbatim>\<open>join_room\<close> refuses it for every caller. For
  a visitor that is the stated rule (the specification's scenario A).
\<close>

lemma joinRoom_admins_denied:
  "handleJoinRoom sid ''admins'' st =
     st\<lparr>outbox := outbox st @ [(ToSocket sid, RoomJoinError ''Access denied to room'')]\<rparr>"
  by (simp add: handleJoinRoom_def canJoin_admins transport_defs)

lemma visitor_joinRoom_admins:
  "sock_userRole (sockets visitor_session ''s1'') = Some ''visitor''
   \<and> outbox (handleJoinRoom ''s1'' ''admins'' visitor_session) =
       outbox visitor_session @ [(ToSocket ''s1'', RoomJoinError ''Access denied to room'')]
   \<and> rooms (handleJoinRoom ''s1'' ''admins'' visitor_session) = rooms visitor_session"
  using joinRoom_admins_denied [of "''s1''" visitor_session] visitor_session_role
  by simp

text \<open>
  Claim C2, where the code departs from it. \<^verbatim>\<open>admins\<close> is the service's own room for
  admins: authentication puts the admin's socket \<open>s1\<close> into it, and the periodic
  broadcast sends to it. Yet the check for admin rooms tests the prefix \<^verbatim>\<open>admin_\<close>,
  which this name does not have: the admin's \<^verbatim>\<open>join_room\<close> for \<^verbatim>\<open>admins\<close> is
  answered with \<^verbatim>\<open>room_join_error\<close>, and an admin who has left the room does not get
  back into it.
\<close>

theorem admin_refused_room_admins:
  "sock_userRole (sockets admin_session ''s1'') = Some ''admin''
   \<and> ''s1'' \<in> rooms admin_session ''admins''
   \<and> \<not> canJoinRoom (sockets admin_session ''s1'') ''admins''
   \<and> outbox (handleJoinRoom ''s1'' ''admins'' admin_session) =
       outbox admin_session @ [(ToSocket ''s1'', RoomJoinError ''Access denied to room'')]
   \<and> ''s1'' \<notin> rooms (handleJoinRoom ''s1'' ''admins''
                         (handleLeaveRoom ''s1'' ''admins'' admin_session)) ''admins''"
  by (simp add: admin_session_def demo_defs handler_defs transport_defs container_defs
      handleConnectionWith_def handleConnection_store_def handleConnection_ack_def quiet_def
      Let_def)

section \<open>Registering a connection\<close>

lemma handleConnection_connectedUsers:
  "connectedUsers (snd (handleConnection env hs sid st)) =
     map_set sid (newSocketUser env hs sid (sockets st sid)) (connectedUsers st)"
  by (simp add: handleConnection_quiet trackUserSession_def transport_defs Let_def
      split: option.splits)

lemma handleConnection_outbox:
  "outbox (snd (handleConnection env hs sid st)) =
     outbox st @
       (if redisAnswers env then
          [(ToSocket sid,
            ConnectionEstablished sid (now env)
              (map_size (connectedUsers (snd (handleConnection env hs sid st)))))]
        else [])"
  by (simp add: handleConnection_quiet trackUserSession_def transport_defs Let_def
      getPublicUserCount_def split: option.splits)

text \<open>
  In a quiet run the only emission of \<^verbatim>\<open>handleConnection\<close> is the acknowledgment to
  the new socket (none when the store command before it fails), and its count is the size
  of \<open>connectedUsers\<close> right after the new record was stored: at least 1, and one more
  than before for a socket id that had no record.
\<close>

lemma quiet_connection_count:
  "outbox (snd (handleConnection env hs sid st)) =
     outbox st @
       (if redisAnswers env then
          [(ToSocket sid,
            ConnectionEstablished sid (now env)
              (map_size (connectedUsers (snd (handleConnection env hs sid st)))))]
        else [])
   \<and> connectedUsers (snd (handleConnection env hs sid st)) =
       map_set sid (newSocketUser env hs sid (sockets st sid)) (connectedUsers st)
   \<and> map_get (connectedUsers (snd (handleConnection env hs sid st))) sid =
       Some (newSocketUser env hs sid (sockets st sid))
   \<and> 1 \<le> map_size (connectedUsers (snd (handleConnection env hs sid st)))
   \<and> (map_get (connectedUsers st) sid = None \<longrightarrow>
        map_size (connectedUsers (snd (handleConnection env hs sid st))) =
          map_size (connectedUsers st) + 1)"
proof -
  have pos: "1 \<le> map_size (connectedUsers (snd (handleConnection env hs sid st)))"
    by (simp only: handleConnection_connectedUsers map_size_map_set_pos)
  have fresh: "map_get (connectedUsers st) sid = None \<longrightarrow>
      map_size (connectedUsers (snd (handleConnection env hs sid st))) =
        map_size (connectedUsers st) + 1"
    by (simp add: handleConnection_connectedUsers map_size_map_set)
  have stored: "map_get (connectedUsers (snd (handleConnection env hs sid st))) sid =
      Some (newSocketUser env hs sid (sockets st sid))"
    by (simp add: handleConnection_connectedUsers map_get_map_set)
  from handleConnection_outbox [of env hs sid st] handleConnection_connectedUsers [of env hs sid st]
    stored pos fresh
  show ?thesis by blast
qed









section \<open>The periodic broadcast\<close>




section \<open>Well-formed maps\<close>

text \<open>
  The two operations that change a map keep one entry per key, and then the length of
  the list is the number of keys.
\<close>

lemma map_set_keys_distinct: "distinct (map fst m) \<Longrightarrow> distinct (map fst (map_set k v m))"
  by (simp add: map_set_def distinct_update)

lemma map_delete_keys_distinct: "distinct (map fst m) \<Longrightarrow> distinct (map fst (map_delete k m))"
  by (simp add: map_delete_def distinct_delete)

lemma map_size_card:
  assumes "distinct (map fst m)"
  shows "map_size m = card (dom (map_get m))"
proof -
  have "map_get m = map_of m"
    by (simp add: map_get_def fun_eq_iff)
  then have "dom (map_get m) = set (map fst m)"
    by (simp add: dom_map_of_conv_image_fst)
  with assms show ?thesis
    by (simp add: map_size_def distinct_card del: set_map)
qed

section \<open>Failures of the analytics sink\<close>

lemma handleConnection_sink:
  "fst (handleConnection (env\<lparr>sinkAnswers := False\<rparr>) hs sid st) =
     fst (handleConnection (env\<lparr>sinkAnswers := True\<rparr>) hs sid st)
   \<and> besides_trace (snd (handleConnection (env\<lparr>sinkAnswers := False\<rparr>) hs sid st)) =
       besides_trace (snd (handleConnection (env\<lparr>sinkAnswers := True\<rparr>) hs sid st))"
  by (simp add: handleConnection_quiet newSocketUser_def besides_trace_def transport_defs
      getPublicUserCount_def Let_def)

lemma handleDisconnection_sink:
  "fst (handleDisconnection (env\<lparr>sinkAnswers := False\<rparr>) sid st) =
     fst (handleDisconnection (env\<lparr>sinkAnswers := True\<rparr>) sid st)
   \<and> besides_trace (snd (handleDisconnection (env\<lparr>sinkAnswers := False\<rparr>) sid st)) =
       besides_trace (snd (handleDisconnection (env\<lparr>sinkAnswers := True\<rparr>) sid st))"
  by (simp add: handleDisconnection_quiet besides_trace_def transport_defs Let_def
      split: option.splits)

lemma handleUserActivity_sink:
  "besides_trace (handleUserActivity (env\<lparr>sinkAnswers := False\<rparr>) sid data st) =
     besides_trace (handleUserActivity (env\<lparr>sinkAnswers := True\<rparr>) sid data st)"
  by (simp add: handleUserActivity_def besides_trace_def transport_defs Let_def
      split: option.splits)

lemma handleDisconnection_outcome:
  "fst (handleDisconnection env sid st) = (if redisAnswers env then None else Some StoreError)"
  by (simp add: handleDisconnection_quiet Let_def)

lemma handleConnection_outcome:
  "fst (handleConnection env hs sid st) = (if redisAnswers env then None else Some StoreError)"
  by (simp add: handleConnection_quiet Let_def)

lemma removeUserSession_connectedUsers:
  "connectedUsers (removeUserSession sid u st) = connectedUsers st"
  by (simp add: removeUserSession_def Let_def split: option.splits)

lemma removeUserSession_rooms: "rooms (removeUserSession sid u st) = rooms st"
  by (simp add: removeUserSession_def Let_def split: option.splits)

lemma handleDisconnection_removes:
  "map_get (connectedUsers (snd (handleDisconnection env sid st))) sid = None"
  by (simp add: handleDisconnection_quiet Let_def transport_defs map_get_map_delete
      removeUserSession_connectedUsers split: option.splits)

lemma handleDisconnection_rooms: "rooms (snd (handleDisconnection env sid st)) = rooms st"
  by (simp add: handleDisconnection_quiet Let_def transport_defs removeUserSession_rooms
      split: option.splits)

lemma handleUserActivity_record:
  "map_get (connectedUsers (handleUserActivity env sid data st)) sid =
     map_option (\<lambda>user. user\<lparr>lastActivity := now env\<rparr>) (map_get (connectedUsers st) sid)"
  by (simp add: handleUserActivity_def Let_def transport_defs map_get_map_set
      split: option.splits)

text \<open>
  Claim C6. When the analytics sink fails, \<^verbatim>\<open>trackEvent\<close> catches and logs, so
  \<^verbatim>\<open>handleConnection\<close>, \<^verbatim>\<open>handleDisconnection\<close> and \<^verbatim>\<open>handleUserActivity\<close> end
  the same way and leave the same state as with a working sink, but for what the sink
  and the logger recorded: same result, same maps, rooms and socket fields, same
  emissions. With the sink failing and the service's own store command answering,
  \<^verbatim>\<open>handleConnection\<close> returns with the record stored and the acknowledgment emitted,
  and \<^verbatim>\<open>handleDisconnection\<close> returns; the record of the closed socket is gone, and
  \<^verbatim>\<open>handleUserActivity\<close> has stamped the record of a registered socket.
\<close>

theorem analytics_failure_swallowed:
  "fst (handleConnection (env\<lparr>sinkAnswers := False\<rparr>) hs sid st) =
     fst (handleConnection (env\<lparr>sinkAnswers := True\<rparr>) hs sid st)
   \<and> besides_trace (snd (handleConnection (env\<lparr>sinkAnswers := False\<rparr>) hs sid st)) =
       besides_trace (snd (handleConnection (env\<lparr>sinkAnswers := True\<rparr>) hs sid st))
   \<and> fst (handleDisconnection (env\<lparr>sinkAnswers := False\<rparr>) sid st) =
       fst (handleDisconnection (env\<lparr>sinkAnswers := True\<rparr>) sid st)
   \<and> besides_trace (snd (handleDisconnection (env\<lparr>sinkAnswers := False\<rparr>) sid st)) =
       besides_trace (snd (handleDisconnection (env\<lparr>sinkAnswers := True\<rparr>) sid st))
   \<and> besides_trace (handleUserActivity (env\<lparr>sinkAnswers := False\<rparr>) sid data st) =
       besides_trace (handleUserActivity (env\<lparr>sinkAnswers := True\<rparr>) sid data st)
   \<and> (redisAnswers env \<longrightarrow>
        fst (handleConnection (env\<lparr>sinkAnswers := False\<rparr>) hs sid st) = None
        \<and> map_get (connectedUsers (snd (handleConnection (env\<lparr>sinkAnswers := False\<rparr>) hs sid st))) sid
            = Some (newSocketUser env hs sid (sockets st sid))
        \<and> outbox (snd (handleConnection (env\<lparr>sinkAnswers := False\<rparr>) hs sid st)) =
            outbox st @
              [(ToSocket sid,
                ConnectionEstablished sid (now env)
                  (map_size (map_set sid (newSocketUser env hs sid (sockets st sid))
                     (connectedUsers st))))]
        \<and> fst (handleDisconnection (env\<lparr>sinkAnswers := False\<rparr>) sid st) = None)
   \<and> map_get (connectedUsers (snd (handleDisconnection (env\<lparr>sinkAnswers := False\<rparr>) sid st))) sid = None
   \<and> map_get (connectedUsers (handleUserActivity (env\<lparr>sinkAnswers := False\<rparr>) sid data st)) sid =
       map_option (\<lambda>user. user\<lparr>lastActivity := now env\<rparr>) (map_get (connectedUsers st) sid)"
proof -
  let ?e = "env\<lparr>sinkAnswers := False\<rparr>"
  have facts: "now ?e = now env" "redisAnswers ?e = redisAnswers env"
    "newSocketUser ?e hs sid (sockets st sid) = newSocketUser env hs sid (sockets st sid)"
    by (simp_all add: newSocketUser_def)
  have ack: "redisAnswers env \<longrightarrow>
      outbox (snd (handleConnection ?e hs sid st)) =
        outbox st @
          [(ToSocket sid,
            ConnectionEstablished sid (now env)
              (map_size (map_set sid (newSocketUser env hs sid (sockets st sid))
                 (connectedUsers st))))]"
    using handleConnection_outbox [of ?e hs sid st] handleConnection_connectedUsers [of ?e hs sid st]
    by (simp add: facts)
  have stored: "map_get (connectedUsers (snd (handleConnection ?e hs sid st))) sid =
      Some (newSocketUser env hs sid (sockets st sid))"
    by (simp add: handleConnection_connectedUsers map_get_map_set facts)
  have out1: "redisAnswers env \<longrightarrow> fst (handleConnection ?e hs sid st) = None"
    by (simp add: handleConnection_outcome)
  have out2: "redisAnswers env \<longrightarrow> fst (handleDisconnection ?e sid st) = None"
    by (simp add: handleDisconnection_outcome)
  have act: "map_get (connectedUsers (handleUserActivity ?e sid data st)) sid =
       map_option (\<lambda>user. user\<lparr>lastActivity := now env\<rparr>) (map_get (connectedUsers st) sid)"
    by (simp add: handleUserActivity_record)
  from handleConnection_sink [of env hs sid st] handleDisconnection_sink [of env sid st]
    handleUserActivity_sink [of env sid data st] ack stored out1 out2
    handleDisconnection_removes [of ?e sid st] act
  show ?thesis by blast
qed

theorem analytics_failure_swallowed_witness:
  "fst (handleConnection (demo_env\<lparr>sinkAnswers := False\<rparr>) plain_handshake ''s1'' initial) = None
   \<and> outbox (snd (handleConnection (demo_env\<lparr>sinkAnswers := False\<rparr>) plain_handshake ''s1'' initial)) =
       [(ToSocket ''s1'', ConnectionEstablished ''s1'' 1000 1)]
   \<and> logs (snd (handleConnection (demo_env\<lparr>sinkAnswers := False\<rparr>) plain_handshake ''s1'' initial)) =
       [LogError ''Failed to track analytics event:'', LogInfo ''Socket connected: s1'']
   \<and> fst (handleDisconnection (demo_env\<lparr>sinkAnswers := False\<rparr>) ''s1'' anonymous_session) = None
   \<and> connectedUsers (snd (handleDisconnection (demo_env\<lparr>sinkAnswers := False\<rparr>) ''s1''
        anonymous_session)) = []"
  using analytics_failure_swallowed [where env = demo_env and hs = plain_handshake
      and sid = "''s1''" and st = initial and data = "''click''"]
    analytics_failure_swallowed [where env = demo_env and hs = plain_handshake
      and sid = "''s1''" and st = anonymous_session and data = "''click''"]
  by (simp add: anonymous_session_def demo_defs handler_defs transport_defs container_defs Let_def)

section \<open>Handlers on a socket without a record\<close>

text \<open>
  Claim C9, as amended. On a socket id that has no record in \<open>connectedUsers\<close>,
  \<^verbatim>\<open>handleUserActivity\<close> changes nothing but what the sink and the logger record, and
  \<^verbatim>\<open>handleDisconnection\<close> writes neither map, no room, no socket field and emits
  nothing: it ends with what other handlers left there during its one await, and in a
  quiet run with the maps, rooms, socket fields and emissions it started with.
  \<^verbatim>\<open>handleUserActivity\<close> has no failing result. \<^verbatim>\<open>handleDisconnection\<close> awaits the
  store's \<^verbatim>\<open>del\<close> outside any \<^verbatim>\<open>try\<close>: with or without a record it returns
  normally exactly when that command answers, and ends in the store's error when it
  does not.
\<close>

theorem unregistered_handle_noop:
  "fst (handleDisconnectionWith env mw sid st) =
     (if redisAnswers env then None else Some StoreError)
   \<and> fst (handleDisconnection env sid st) =
       (if redisAnswers env then None else Some StoreError)
   \<and> (map_get (connectedUsers st) sid = None \<longrightarrow>
        besides_trace (handleUserActivity env sid data st) = besides_trace st
        \<and> connectedUsers (snd (handleDisconnectionWith env mw sid st)) =
            connectedUsers (whileStoring mw st)
        \<and> userSessions (snd (handleDisconnectionWith env mw sid st)) =
            userSessions (whileStoring mw st)
        \<and> rooms (snd (handleDisconnectionWith env mw sid st)) = rooms (whileStoring mw st)
        \<and> sockets (snd (handleDisconnectionWith env mw sid st)) = sockets (whileStoring mw st)
        \<and> outbox (snd (handleDisconnectionWith env mw sid st)) = outbox (whileStoring mw st)
        \<and> connectedUsers (snd (handleDisconnection env sid st)) = connectedUsers st
        \<and> userSessions (snd (handleDisconnection env sid st)) = userSessions st
        \<and> rooms (snd (handleDisconnection env sid st)) = rooms st
        \<and> sockets (snd (handleDisconnection env sid st)) = sockets st
        \<and> outbox (snd (handleDisconnection env sid st)) = outbox st)"
  by (simp add: handleDisconnectionWith_def handleDisconnection_def quiet_def
      handleUserActivity_def besides_trace_def transport_defs Let_def)

text \<open>
  The runs behind it: an id without a record, and the specification's scenario D (\<open>s1\<close>
  connects, never authenticates, reports activity and closes), with the store answering.
\<close>

theorem unregistered_handle_noop_witness:
  "map_get (connectedUsers anonymous_session) ''s9'' = None
   \<and> connectedUsers (handleUserActivity demo_env ''s9'' ''click'' anonymous_session) =
       connectedUsers anonymous_session
   \<and> fst (handleDisconnection demo_env ''s9'' anonymous_session) = None
   \<and> connectedUsers (snd (handleDisconnection demo_env ''s9'' anonymous_session)) =
       connectedUsers anonymous_session
   \<and> fst (handleDisconnection demo_env ''s1''
            (handleUserActivity demo_env ''s1'' ''click'' anonymous_session)) = None
   \<and> connectedUsers (snd (handleDisconnection demo_env ''s1''
        (handleUserActivity demo_env ''s1'' ''click'' anonymous_session))) = []"
  using unregistered_handle_noop [where env = demo_env and sid = "''s9''"
      and st = anonymous_session and data = "''click''" and mw = quiet]
    unregistered_handle_noop [where env = demo_env and sid = "''s1''"
      and st = "handleUserActivity demo_env ''s1'' ''click'' anonymous_session"
      and data = "''click''" and mw = quiet]
  by (simp add: anonymous_session_def demo_defs handler_defs transport_defs container_defs Let_def
      besides_trace_def)

text \<open>
  Against claim C9 as stated: \<open>s9\<close> has no record, the store does not answer the
  \<^verbatim>\<open>del\<close>, and \<^verbatim>\<open>handleDisconnection\<close> ends in the store's error instead of
  returning. The maps are as before.
\<close>

theorem unregistered_handle_throws_counterexample:
  "map_get (connectedUsers anonymous_session) ''s9'' = None
   \<and> fst (handleDisconnection (demo_env\<lparr>redisAnswers := False\<rparr>) ''s9'' anonymous_session) =
       Some StoreError
   \<and> connectedUsers (snd (handleDisconnection (demo_env\<lparr>redisAnswers := False\<rparr>) ''s9''
        anonymous_session)) = connectedUsers anonymous_session"
  by (simp add: anonymous_session_def demo_defs handler_defs transport_defs container_defs Let_def)

section \<open>Authentication by event and the session index\<close>

text \<open>
  What \<^verbatim>\<open>handleAuthentication\<close> does on an accepted token, and what it leaves alone on
  a token that is refused or on which the verifier throws. It never writes
  \<open>userSessions\<close>: only \<^verbatim>\<open>handleConnection\<close> adds to that map, from the identity the
  middleware found in the handshake.
\<close>

lemma handleAuthentication_userSessions:
  "userSessions (handleAuthentication env sid token st) = userSessions st"
  by (simp add: handleAuthentication_def transport_defs Let_def split: sum.splits option.splits)

lemma handleAuthentication_accepted:
  assumes "verifyToken env token = Inr (Some user)"
  shows "sockets (handleAuthentication env sid token st) sid =
           \<lparr>sock_userId = Some (user_id user), sock_userRole = Some (user_role user),
            sock_isAuthenticated = True\<rparr>"
    and "map_get (connectedUsers (handleAuthentication env sid token st)) sid =
           map_option (\<lambda>socketUser. socketUser\<lparr>userId := Some (user_id user),
                          role := Some (user_role user), isAuthenticated := True\<rparr>)
             (map_get (connectedUsers st) sid)"
    and "sid \<in> rooms (handleAuthentication env sid token st) (''user:'' @ user_id user)"
    and "user_role user = ''admin'' \<Longrightarrow>
           sid \<in> rooms (handleAuthentication env sid token st) ''admins''"
  using assms
  by (simp_all add: handleAuthentication_def transport_defs Let_def map_get_map_set
      split: option.splits)

lemma handleAuthentication_refused:
  assumes "\<forall>user. verifyToken env token \<noteq> Inr (Some user)"
  shows "sockets (handleAuthentication env sid token st) = sockets st"
    and "connectedUsers (handleAuthentication env sid token st) = connectedUsers st"
    and "rooms (handleAuthentication env sid token st) = rooms st"
  using assms
  by (simp_all add: handleAuthentication_def transport_defs Let_def
      split: sum.splits option.splits)

text \<open>
  Claim C1, where the code departs from it. In the visitor session the socket \<open>s1\<close> is
  registered and its record is authenticated as \<open>u1\<close>, yet \<open>u1\<close> has no entry in
  \<open>userSessions\<close>: the index misses a user with a live authenticated connection.
\<close>

theorem session_index_misses_authenticated_user:
  "authenticatedAs visitor_session ''u1'' \<and> \<not> map_has (userSessions visitor_session) ''u1''"
  by (simp add: authenticatedAs_def visitor_session_def demo_defs handler_defs transport_defs
      container_defs Let_def)

text \<open>
  Claim C3, where the code departs from it. After \<^verbatim>\<open>authenticate\<close> with the accepted
  token of \<open>u1\<close>, the record of \<open>s1\<close> carries the user, the role and the flag, and \<open>s1\<close>
  is in the room \<^verbatim>\<open>user:u1\<close>; but \<open>userSessions\<close> is still empty and
  \<^verbatim>\<open>getUserConnections\<close> counts no connection for \<open>u1\<close>.
\<close>

theorem authenticate_event_not_indexed:
  "map_get (connectedUsers visitor_session) ''s1'' =
     Some \<lparr>id_su = ''s1'', socketId = ''s1'', userId = Some ''u1'', role = Some ''visitor'',
           isAuthenticated = True, connectedAt = 1000, lastActivity = 1000,
           userAgent = ''agent'', ipAddress = ''10.0.0.1'',
           location = Some (''Unknown'', ''Unknown'')\<rparr>
   \<and> ''s1'' \<in> rooms visitor_session ''user:u1''
   \<and> userSessions visitor_session = []
   \<and> getUserConnections visitor_session ''u1'' = 0"
  by (simp add: visitor_session_def demo_defs handler_defs transport_defs container_defs Let_def)

section \<open>Closing a connection\<close>

lemma disconnect_clears:
  "sid \<notin> rooms (snd (disconnect env sid st)) room"
  "map_get (connectedUsers (snd (disconnect env sid st))) sid = None"
  by (simp_all add: disconnect_def handleDisconnection_rooms handleDisconnection_removes
      socket_leaveAll_def)

text \<open>
  Claim C4, where the code departs from it. The socket \<open>s1\<close> connects with the token of
  \<open>u1\<close> in its handshake, so \<^verbatim>\<open>handleConnection\<close> lists it under \<open>u1\<close>; it then
  authenticates as \<open>u2\<close>, which rewrites its record but not the index; at the close the
  handler looks under \<open>u2\<close>, finds no set, and leaves \<open>s1\<close> listed under \<open>u1\<close>. The
  record and the room memberships are gone, the index entry stays.
\<close>

theorem stale_session_index_after_disconnect:
  "map_get (connectedUsers switched_identity_run) ''s1'' = None
   \<and> rooms switched_identity_run ''user:u1'' = {}
   \<and> rooms switched_identity_run ''user:u2'' = {}
   \<and> map_get (userSessions switched_identity_run) ''u1'' = Some [''s1'']
   \<and> getUserConnections switched_identity_run ''u1'' = 1"
  by (simp add: switched_identity_run_def demo_defs handler_defs transport_defs container_defs
      Let_def)

text \<open>
  What does hold of a close. None of the events a socket can send writes the session
  index. So a socket that connects without an identity in its handshake and is listed
  nowhere before is listed nowhere after any run of events and its close, and by then
  its record and its room memberships are gone as well. More generally the close unlists
  a socket that was listed only under the user id its record carries.
\<close>

lemma onRequest_userSessions: "userSessions (onRequest env sid req st) = userSessions st"
  by (cases req)
    (simp_all add: onRequest_def handleAuthentication_userSessions handleJoinRoom_def
      handleLeaveRoom_def handleUserActivity_def transport_defs Let_def split: option.splits)

lemma onRequests_userSessions: "userSessions (onRequests sid reqs st) = userSessions st"
  by (induction sid reqs st rule: onRequests.induct) (simp_all add: onRequest_userSessions)



lemma handleDisconnection_userSessions:
  "userSessions (snd (handleDisconnection env sid st)) =
     (case map_get (connectedUsers st) sid of
        None \<Rightarrow> userSessions st
      | Some u \<Rightarrow> userSessions (removeUserSession sid u st))"
  by (simp add: handleDisconnection_quiet Let_def transport_defs split: option.splits)

lemma disconnect_userSessions:
  "userSessions (snd (disconnect env sid st)) =
     (case map_get (connectedUsers st) sid of
        None \<Rightarrow> userSessions st
      | Some u \<Rightarrow> userSessions (removeUserSession sid u st))"
proof -
  have "userSessions (removeUserSession sid u (socket_leaveAll sid st)) =
      userSessions (removeUserSession sid u st)" for u
    by (simp add: removeUserSession_def socket_leaveAll_def Let_def split: option.splits)
  then show ?thesis
    by (simp add: disconnect_def handleDisconnection_userSessions socket_leaveAll_def
        split: option.splits)
qed


lemma removeUserSession_unlists:
  assumes only: "\<forall>uid sids. map_get (userSessions st) uid = Some sids \<and> sid \<in> set sids \<longrightarrow>
             userId u = Some uid \<and> uid \<noteq> []"
  shows "unlisted (removeUserSession sid u st) sid"
proof -
  have listed: "userId u = Some uid \<and> uid \<noteq> []"
    if "map_get (userSessions st) uid = Some sids" "sid \<in> set sids" for uid sids
    using only [rule_format, of uid sids] that by simp
  show ?thesis
  proof (cases "userId u")
    case None
    then have "removeUserSession sid u st = st"
      by (simp add: removeUserSession_def)
    moreover have "unlisted st sid"
      unfolding unlisted_def using listed None by fastforce
    ultimately show ?thesis by simp
  next
    case (Some uid0)
    show ?thesis
    proof (cases "uid0 = []")
      case True
      with Some have "removeUserSession sid u st = st"
        by (simp add: removeUserSession_def)
      moreover have "unlisted st sid"
        unfolding unlisted_def using listed Some True by fastforce
      ultimately show ?thesis by simp
    next
      case ne: False
      show ?thesis
      proof (cases "map_get (userSessions st) uid0")
        case None
        with Some ne have "removeUserSession sid u st = st"
          by (simp add: removeUserSession_def)
        moreover have "unlisted st sid"
          unfolding unlisted_def using listed Some None by fastforce
        ultimately show ?thesis by simp
      next
        case (Some sids0)
        have other: "sid \<notin> set sids" if "map_get (userSessions st) uid = Some sids" "uid \<noteq> uid0"
          for uid sids
          using listed [of uid sids] that \<open>userId u = Some uid0\<close> by auto
        show ?thesis
        proof (cases "removeAll sid sids0 = []")
          case True
          with \<open>userId u = Some uid0\<close> Some ne have "userSessions (removeUserSession sid u st) =
              map_delete uid0 (userSessions st)"
            by (simp add: removeUserSession_def set_delete_def set_size_def Let_def)
          with other show ?thesis
            by (simp add: unlisted_def map_get_map_delete)
        next
          case False
          with \<open>userId u = Some uid0\<close> Some ne have "userSessions (removeUserSession sid u st) =
              map_set uid0 (removeAll sid sids0) (userSessions st)"
            by (simp add: removeUserSession_def set_delete_def set_size_def Let_def)
          with other show ?thesis
            by (simp add: unlisted_def map_get_map_set)
        qed
      qed
    qed
  qed
qed


lemma disconnect_unlists:
  assumes only: "\<forall>uid sids. map_get (userSessions st) uid = Some sids \<and> sid \<in> set sids \<longrightarrow>
             uid \<noteq> [] \<and> (\<exists>u. map_get (connectedUsers st) sid = Some u \<and> userId u = Some uid)"
  shows "unlisted (snd (disconnect env sid st)) sid"
proof (cases "map_get (connectedUsers st) sid")
  case None
  have "unlisted st sid"
    unfolding unlisted_def
  proof (intro allI impI notI)
    fix uid sids
    assume "map_get (userSessions st) uid = Some sids" and "sid \<in> set sids"
    then have "map_get (userSessions st) uid = Some sids \<and> sid \<in> set sids"
      by simp
    from only [rule_format, OF this] obtain u where "map_get (connectedUsers st) sid = Some u"
      by auto
    with None show False
      by simp
  qed
  moreover from None have "userSessions (snd (disconnect env sid st)) = userSessions st"
    by (simp add: disconnect_userSessions)
  ultimately show ?thesis
    by (simp add: unlisted_def)
next
  case (Some u)
  have "\<forall>uid sids. map_get (userSessions st) uid = Some sids \<and> sid \<in> set sids \<longrightarrow>
      userId u = Some uid \<and> uid \<noteq> []"
  proof (intro allI impI)
    fix uid sids
    assume "map_get (userSessions st) uid = Some sids \<and> sid \<in> set sids"
    from only [rule_format, OF this] Some show "userId u = Some uid \<and> uid \<noteq> []"
      by auto
  qed
  then have "unlisted (removeUserSession sid u st) sid"
    by (rule removeUserSession_unlists)
  moreover from Some have "userSessions (snd (disconnect env sid st)) =
      userSessions (removeUserSession sid u st)"
    by (simp add: disconnect_userSessions)
  ultimately show ?thesis
    by (simp add: unlisted_def)
qed

lemma middleware_without_token:
  assumes "\<not> truthy (hs_authToken hs)" and "\<not> truthy (hs_authorization hs)"
  shows "authenticationMiddleware env hs sid st = st"
  using assms
  by (cases "hs_authToken hs"; cases "hs_authorization hs")
    (simp_all add: authenticationMiddleware_def truthy_def)

lemma trackUserSession_without_identity:
  "userId u = None \<Longrightarrow> trackUserSession sid u st = st"
  by (simp add: trackUserSession_def)

lemma handleConnection_without_identity:
  assumes "sock_userId (sockets st sid) = None"
  shows "userSessions (snd (handleConnection env hs sid st)) = userSessions st"
proof -
  have "userId (newSocketUser env hs sid (sockets st sid)) = None"
    using assms by (simp add: newSocketUser_def)
  then show ?thesis
    by (simp add: handleConnection_quiet trackUserSession_without_identity transport_defs Let_def)
qed

lemma connect_without_identity:
  assumes "\<not> truthy (hs_authToken hs)" and "\<not> truthy (hs_authorization hs)"
    and "sock_userId (sockets st sid) = None"
  shows "userSessions (snd (connect env hs sid st)) = userSessions st"
  using assms
  by (simp add: connect_def middleware_without_token handleConnection_without_identity)

lemma session_without_handshake_identity:
  assumes "\<not> truthy (hs_authToken hs)" and "\<not> truthy (hs_authorization hs)"
    and "sock_userId (sockets st sid) = None"
    and "unlisted st sid"
  shows "map_get (connectedUsers
           (snd (disconnect env' sid (onRequests sid reqs (snd (connect env hs sid st)))))) sid = None
     \<and> sid \<notin> rooms (snd (disconnect env' sid (onRequests sid reqs (snd (connect env hs sid st))))) room
     \<and> unlisted (snd (disconnect env' sid (onRequests sid reqs (snd (connect env hs sid st))))) sid"
proof -
  let ?st = "onRequests sid reqs (snd (connect env hs sid st))"
  have "userSessions ?st = userSessions st"
    using assms(1-3) by (simp add: onRequests_userSessions connect_without_identity)
  with assms(4) have "unlisted ?st sid"
    by (simp add: unlisted_def)
  then have "\<forall>uid sids. map_get (userSessions ?st) uid = Some sids \<and> sid \<in> set sids \<longrightarrow>
      uid \<noteq> [] \<and> (\<exists>u. map_get (connectedUsers ?st) sid = Some u \<and> userId u = Some uid)"
    unfolding unlisted_def by fastforce
  then have "unlisted (snd (disconnect env' sid ?st)) sid"
    by (rule disconnect_unlists)
  with disconnect_clears(1) [of sid env' ?st room] disconnect_clears(2) [of env' sid ?st]
  show ?thesis
    by simp
qed

section \<open>Per-user rooms\<close>

lemma splitOn_no_sep: "c \<notin> set xs \<Longrightarrow> splitOn c xs = [xs]"
  by (induction xs) auto

text \<open>For a user id without a colon the rule is the stated one.\<close>

lemma canJoin_user_room:
  "CHR '':'' \<notin> set uid \<Longrightarrow>
     canJoinRoom sock (''user:'' @ uid) =
       (sock_userId sock = Some uid \<or> sock_userRole sock = Some ''admin'')"
  by (simp add: canJoinRoom_def startsWith_def at_index_def splitOn_no_sep)

text \<open>
  Claim C8, where the code departs from it. The room name is cut at every colon and only
  the second piece is compared. The visitor \<open>u1\<close> may join \<^verbatim>\<open>user:u1:x\<close>, the room of
  the id \<^verbatim>\<open>u1:x\<close>, which is not its own; and a visitor whose id is \<^verbatim>\<open>u1:x\<close> is
  refused that same room, its own.
\<close>

theorem user_room_compares_second_piece:
  "sock_userId (sockets visitor_session ''s1'') = Some ''u1''
   \<and> sock_userRole (sockets visitor_session ''s1'') = Some ''visitor''
   \<and> canJoinRoom (sockets visitor_session ''s1'') (''user:'' @ ''u1:x'')
   \<and> ''s1'' \<in> rooms (handleJoinRoom ''s1'' (''user:'' @ ''u1:x'') visitor_session) ''user:u1:x''
   \<and> \<not> canJoinRoom \<lparr>sock_userId = Some ''u1:x'', sock_userRole = Some ''visitor'',
                       sock_isAuthenticated = True\<rparr> (''user:'' @ ''u1:x'')"
  by (simp add: visitor_session_def demo_defs handler_defs transport_defs container_defs Let_def)

end
